theory Spec2Isabelle
  imports Main "HOL-Library.AList"
begin

section \<open>The ledger bot of gestionbot/main.py\<close>

text \<open>
  The bot keeps one Python dictionary \<^verbatim>\<open>DATA\<close> in memory, mirrors it into the file
  \<^verbatim>\<open>data.json\<close> after every mutation and posts one line per accepted mutation in a
  history channel. Twelve slash-command handlers share one template: access check,
  mutation and save under \<^verbatim>\<open>DATA_LOCK\<close>, reply, history line, refresh of the two status
  messages.

  Modelling decisions.
  \<^item> \<^verbatim>\<open>DATA\<close> is a record whose top-level fields are optional: the handlers read them
    with \<^verbatim>\<open>DATA.get(key, default)\<close> and \<^verbatim>\<open>DATA.setdefault(key, {})\<close>, so a missing key is
    a state the code provides for. \<open>None\<close> is the missing key.
  \<^item> The merchandise dictionary is an association list in insertion order, as a Python
    \<^verbatim>\<open>dict\<close> is; \<^verbatim>\<open>merch[nom] = v\<close> is \<open>AList.update\<close> (overwrite in place, or append),
    \<^verbatim>\<open>del merch[nom]\<close> is \<open>AList.delete\<close>.
  \<^item> Python integers are unbounded: \<open>int\<close>.
  \<^item> Strings are byte lists; the channel names of the configuration, which are not
    ASCII, are written as their UTF-8 bytes. Only equality of names is used.
  \<^item> The file holds a document or does not exist. \<^verbatim>\<open>json.dump\<close> followed by
    \<^verbatim>\<open>json.load\<close> is taken to give back the dictionary it was given (integers, strings,
    null and nested objects with string keys are what the document is made of), and
    writes to the file and calls of the chat platform are taken to succeed.
  \<^item> A handler is one atomic step on the world: the mutation and the save happen under
    \<^verbatim>\<open>DATA_LOCK\<close>, and the reply and the history line that follow read nothing that
    another handler changes.
  \<^item> The refresh of the two status messages at the end of every handler only fetches
    and edits messages of the chat platform; it reads \<^verbatim>\<open>DATA\<close> and writes neither
    \<^verbatim>\<open>DATA\<close>, the file nor the history channel, and is not part of the world below.
    \<^verbatim>\<open>ensure_status_messages\<close>, which creates the two messages and is the only writer of
    \<^verbatim>\<open>status_message_ids\<close>, runs from \<^verbatim>\<open>on_ready\<close> and from no handler; it is not
    modelled either.
  \<^item> A reply is the message, not its rendering; the rejections of the permission check
    are sent to the caller alone (\<^verbatim>\<open>ephemeral=True\<close>).
  \<^item> The one exception the code raises by itself is a value: reading the name of a
    channel that has none. A handler it leaves sends no reply.
\<close>

subsection \<open>Configuration\<close>

definition ALLOWED_USER_IDS :: "int list" where
  "ALLOWED_USER_IDS = [549140350887788544, 428666981604917249, 621802427221278740]"

definition ALLOWED_USER_NAMES :: "string list" where
  "ALLOWED_USER_NAMES = [''Alpha-1#0001'', ''Alpha-4#0004'', ''Alpha-5#0005'']"

definition CHANNEL_CMD :: string where
  "CHANNEL_CMD = [CHR 0xE2, CHR 0x9A, CHR 0xA1, CHR 0xE2, CHR 0x94, CHR 0x87] @ ''cmds''"

definition CHANNEL_HISTORY :: string where
  "CHANNEL_HISTORY =
     [CHR 0xF0, CHR 0x9F, CHR 0x93, CHR 0x8B, CHR 0xE2, CHR 0x94, CHR 0x87] @ ''historique''"

subsection \<open>The ledger document\<close>

record status_ids =
  banque :: "int option"
  marchandises_msg :: "int option"

record ledger =
  propre :: "int option"
  sale :: "int option"
  marchandises :: "(string \<times> int) list option"
  status_message_ids :: "status_ids option"

definition DEFAULT_DATA :: ledger where
  "DEFAULT_DATA =
     \<lparr>propre = Some 0, sale = Some 0, marchandises = Some [],
      status_message_ids = Some \<lparr>banque = None, marchandises_msg = None\<rparr>\<rparr>"

text \<open>\<^verbatim>\<open>d.get(key, default)\<close> on an optional field.\<close>

definition dict_get :: "'a option \<Rightarrow> 'a \<Rightarrow> 'a" where
  "dict_get v dflt = (case v of None \<Rightarrow> dflt | Some x \<Rightarrow> x)"

text \<open>\<^verbatim>\<open>nom in merch\<close>.\<close>

definition has_key :: "string \<Rightarrow> (string \<times> int) list \<Rightarrow> bool" where
  "has_key nom merch = (nom \<in> set (map fst merch))"

text \<open>
  \<^verbatim>\<open>merch = DATA.setdefault('marchandises', {})\<close>: the document with the key present,
  and the dictionary stored under it.
\<close>

definition setdefault_marchandises :: "ledger \<Rightarrow> ledger \<times> (string \<times> int) list" where
  "setdefault_marchandises d =
     (case marchandises d of
        None \<Rightarrow> (d\<lparr>marchandises := Some []\<rparr>, [])
      | Some merch \<Rightarrow> (d, merch))"

subsection \<open>The world: memory, file, history channel\<close>

record user =
  uid :: int
  uname :: string
  discriminator :: string

text \<open>
  The object \<^verbatim>\<open>interaction.channel\<close>, as far as the code reads it: a channel with a
  \<^verbatim>\<open>name\<close> attribute (the channels of a guild), or one without (a direct-message
  channel, \<^verbatim>\<open>discord.DMChannel\<close>, or a \<^verbatim>\<open>discord.PartialMessageable\<close>). The commands are
  synced globally, without \<^verbatim>\<open>guild_only\<close>, so a call can come from a direct message.
\<close>

datatype channel = Named_channel string | Unnamed_channel

text \<open>The exception that reading a missing attribute raises.\<close>

datatype py_error = AttributeError

text \<open>
  What a handler reads of its \<^verbatim>\<open>discord.Interaction\<close>: the invoking user, the channel
  (\<open>None\<close> when \<^verbatim>\<open>interaction.channel is None\<close>), the names of the text channels of the
  guild (none for a call outside a guild), and the time
  \<^verbatim>\<open>datetime.utcnow().isoformat()\<close> gives.
\<close>

record interaction =
  iuser :: user
  channel :: "channel option"
  guild :: "string list"
  utcnow :: string

text \<open>The operation a history line describes; the line's text renders these.\<close>

datatype action =
    Log_propre_in int
  | Log_propre_out int
  | Log_sale_in int
  | Log_sale_out int
  | Log_new_marchandise string
  | Log_delete_marchandise string
  | Log_marchandise_in int string
  | Log_marchandise_out int string
  | Log_clean_propre
  | Log_clean_sale
  | Log_clean_marchandise string
  | Log_clean_marchandise_all

record history_line =
  stamp :: string
  actor :: user
  what :: action

record world =
  DATA :: ledger
  data_file :: "ledger option"
  history :: "history_line list"

text \<open>
  The message a handler sends back with \<^verbatim>\<open>interaction.response.send_message\<close>, one
  constructor for each text of the source. \<open>Does_not_exist_use_new\<close> is the not-found
  message of \<^verbatim>\<open>marchandise_in\<close>, which adds the hint to use \<^verbatim>\<open>/new_marchandise\<close>.
\<close>

datatype reply =
    Not_authorized
  | Wrong_channel
  | Added_propre int
  | Removed_propre int
  | Added_sale int
  | Removed_sale int
  | Already_exists string
  | Does_not_exist string
  | Does_not_exist_use_new string
  | Marchandise_added string
  | Marchandise_deleted string
  | Stock_added int string
  | Stock_removed int string
  | Propre_reset
  | Sale_reset
  | Marchandise_reset string
  | All_marchandises_reset

subsection \<open>Helpers\<close>

text \<open>
  Without a file, the code writes the defaults and returns \<^verbatim>\<open>DEFAULT_DATA.copy()\<close>, a
  shallow copy that shares its two nested dictionaries with the constant; the function is
  called once, when the module is loaded, and the constant is not read again.
\<close>

definition load_data :: "world \<Rightarrow> ledger \<times> world" where
  "load_data w =
     (case data_file w of
        None \<Rightarrow> (DEFAULT_DATA, w\<lparr>data_file := Some DEFAULT_DATA\<rparr>)
      | Some d \<Rightarrow> (d, w))"

definition save_data :: "ledger \<Rightarrow> world \<Rightarrow> world" where
  "save_data d w = w\<lparr>data_file := Some d\<rparr>"

definition is_user_allowed :: "user \<Rightarrow> bool" where
  "is_user_allowed u =
     (if uid u \<in> set ALLOWED_USER_IDS then True
      else if (uname u @ ''#'' @ discriminator u) \<in> set ALLOWED_USER_NAMES then True
      else False)"

fun get_channel_by_name :: "string list \<Rightarrow> string \<Rightarrow> string option" where
  "get_channel_by_name [] name = None"
| "get_channel_by_name (ch # chs) name =
     (if ch = name then Some ch else get_channel_by_name chs name)"

definition post_history :: "interaction \<Rightarrow> action \<Rightarrow> world \<Rightarrow> world" where
  "post_history i a w =
     (case get_channel_by_name (guild i) CHANNEL_HISTORY of
        None \<Rightarrow> w
      | Some ch \<Rightarrow>
          w\<lparr>history := history w @ [\<lparr>stamp = utcnow i, actor = iuser i, what = a\<rparr>]\<rparr>)"

text \<open>
  The permission check: \<open>Inr None\<close> is \<^verbatim>\<open>return True\<close>, \<open>Inr (Some r)\<close> is the rejection
  \<open>r\<close> sent to the caller followed by \<^verbatim>\<open>return False\<close>, \<open>Inl e\<close> is the exception \<open>e\<close>
  leaving the function: \<^verbatim>\<open>interaction.channel.name\<close> is read without a guard, after the
  test \<^verbatim>\<open>interaction.channel is None\<close> alone.
\<close>

definition check_allowed_and_channel :: "interaction \<Rightarrow> py_error + reply option" where
  "check_allowed_and_channel i =
     (if \<not> is_user_allowed (iuser i) then Inr (Some Not_authorized)
      else
        (case channel i of
           None \<Rightarrow> Inr (Some Wrong_channel)
         | Some Unnamed_channel \<Rightarrow> Inl AttributeError
         | Some (Named_channel name) \<Rightarrow>
             if name \<noteq> CHANNEL_CMD then Inr (Some Wrong_channel) else Inr None))"

subsection \<open>Command handlers\<close>

text \<open>
  Each handler returns what the caller gets and the world after the call: \<open>Inr r\<close> is the
  reply \<open>r\<close>; \<open>Inl e\<close> is the exception \<open>e\<close> leaving the handler, with no reply sent. The
  order of the effects is the source's: the permission check, the mutation and the save,
  then the reply, then the history line.
\<close>

definition propre_in :: "interaction \<Rightarrow> int \<Rightarrow> world \<Rightarrow> (py_error + reply) \<times> world" where
  "propre_in i montant w =
     (case check_allowed_and_channel i of
        Inl e \<Rightarrow> (Inl e, w)
      | Inr (Some r) \<Rightarrow> (Inr r, w)
      | Inr None \<Rightarrow>
          (let d = (DATA w)\<lparr>propre := Some (dict_get (propre (DATA w)) 0 + montant)\<rparr>;
               w1 = save_data d (w\<lparr>DATA := d\<rparr>)
           in (Inr (Added_propre montant), post_history i (Log_propre_in montant) w1)))"

definition propre_out :: "interaction \<Rightarrow> int \<Rightarrow> world \<Rightarrow> (py_error + reply) \<times> world" where
  "propre_out i montant w =
     (case check_allowed_and_channel i of
        Inl e \<Rightarrow> (Inl e, w)
      | Inr (Some r) \<Rightarrow> (Inr r, w)
      | Inr None \<Rightarrow>
          (let d = (DATA w)\<lparr>propre := Some (max 0 (dict_get (propre (DATA w)) 0 - montant))\<rparr>;
               w1 = save_data d (w\<lparr>DATA := d\<rparr>)
           in (Inr (Removed_propre montant), post_history i (Log_propre_out montant) w1)))"

definition sale_in :: "interaction \<Rightarrow> int \<Rightarrow> world \<Rightarrow> (py_error + reply) \<times> world" where
  "sale_in i montant w =
     (case check_allowed_and_channel i of
        Inl e \<Rightarrow> (Inl e, w)
      | Inr (Some r) \<Rightarrow> (Inr r, w)
      | Inr None \<Rightarrow>
          (let d = (DATA w)\<lparr>sale := Some (dict_get (sale (DATA w)) 0 + montant)\<rparr>;
               w1 = save_data d (w\<lparr>DATA := d\<rparr>)
           in (Inr (Added_sale montant), post_history i (Log_sale_in montant) w1)))"

definition sale_out :: "interaction \<Rightarrow> int \<Rightarrow> world \<Rightarrow> (py_error + reply) \<times> world" where
  "sale_out i montant w =
     (case check_allowed_and_channel i of
        Inl e \<Rightarrow> (Inl e, w)
      | Inr (Some r) \<Rightarrow> (Inr r, w)
      | Inr None \<Rightarrow>
          (let d = (DATA w)\<lparr>sale := Some (max 0 (dict_get (sale (DATA w)) 0 - montant))\<rparr>;
               w1 = save_data d (w\<lparr>DATA := d\<rparr>)
           in (Inr (Removed_sale montant), post_history i (Log_sale_out montant) w1)))"

text \<open>
  The merchandise handlers start with \<^verbatim>\<open>setdefault\<close>, which writes the missing key into
  \<^verbatim>\<open>DATA\<close> before the name is looked up: on the early return the world holds that
  document, unsaved.
\<close>

definition new_marchandise ::
  "interaction \<Rightarrow> string \<Rightarrow> world \<Rightarrow> (py_error + reply) \<times> world" where
  "new_marchandise i nom w =
     (case check_allowed_and_channel i of
        Inl e \<Rightarrow> (Inl e, w)
      | Inr (Some r) \<Rightarrow> (Inr r, w)
      | Inr None \<Rightarrow>
          (let (d0, merch) = setdefault_marchandises (DATA w) in
           if has_key nom merch then (Inr (Already_exists nom), w\<lparr>DATA := d0\<rparr>)
           else
             (let d = d0\<lparr>marchandises := Some (AList.update nom 0 merch)\<rparr>;
                  w1 = save_data d (w\<lparr>DATA := d\<rparr>)
              in (Inr (Marchandise_added nom), post_history i (Log_new_marchandise nom) w1))))"

definition delete_marchandise ::
  "interaction \<Rightarrow> string \<Rightarrow> world \<Rightarrow> (py_error + reply) \<times> world" where
  "delete_marchandise i nom w =
     (case check_allowed_and_channel i of
        Inl e \<Rightarrow> (Inl e, w)
      | Inr (Some r) \<Rightarrow> (Inr r, w)
      | Inr None \<Rightarrow>
          (let (d0, merch) = setdefault_marchandises (DATA w) in
           if \<not> has_key nom merch then (Inr (Does_not_exist nom), w\<lparr>DATA := d0\<rparr>)
           else
             (let d = d0\<lparr>marchandises := Some (AList.delete nom merch)\<rparr>;
                  w1 = save_data d (w\<lparr>DATA := d\<rparr>)
              in (Inr (Marchandise_deleted nom), post_history i (Log_delete_marchandise nom) w1))))"

definition marchandise_in ::
  "interaction \<Rightarrow> string \<Rightarrow> int \<Rightarrow> world \<Rightarrow> (py_error + reply) \<times> world" where
  "marchandise_in i nom quantite w =
     (case check_allowed_and_channel i of
        Inl e \<Rightarrow> (Inl e, w)
      | Inr (Some r) \<Rightarrow> (Inr r, w)
      | Inr None \<Rightarrow>
          (let (d0, merch) = setdefault_marchandises (DATA w) in
           if \<not> has_key nom merch then (Inr (Does_not_exist_use_new nom), w\<lparr>DATA := d0\<rparr>)
           else
             (let d = d0\<lparr>marchandises :=
                         Some (AList.update nom (dict_get (map_of merch nom) 0 + quantite) merch)\<rparr>;
                  w1 = save_data d (w\<lparr>DATA := d\<rparr>)
              in (Inr (Stock_added quantite nom),
                  post_history i (Log_marchandise_in quantite nom) w1))))"

definition marchandise_out ::
  "interaction \<Rightarrow> string \<Rightarrow> int \<Rightarrow> world \<Rightarrow> (py_error + reply) \<times> world" where
  "marchandise_out i nom quantite w =
     (case check_allowed_and_channel i of
        Inl e \<Rightarrow> (Inl e, w)
      | Inr (Some r) \<Rightarrow> (Inr r, w)
      | Inr None \<Rightarrow>
          (let (d0, merch) = setdefault_marchandises (DATA w) in
           if \<not> has_key nom merch then (Inr (Does_not_exist nom), w\<lparr>DATA := d0\<rparr>)
           else
             (let d = d0\<lparr>marchandises :=
                         Some (AList.update nom
                                 (max 0 (dict_get (map_of merch nom) 0 - quantite)) merch)\<rparr>;
                  w1 = save_data d (w\<lparr>DATA := d\<rparr>)
              in (Inr (Stock_removed quantite nom),
                  post_history i (Log_marchandise_out quantite nom) w1))))"

definition clean_propre :: "interaction \<Rightarrow> world \<Rightarrow> (py_error + reply) \<times> world" where
  "clean_propre i w =
     (case check_allowed_and_channel i of
        Inl e \<Rightarrow> (Inl e, w)
      | Inr (Some r) \<Rightarrow> (Inr r, w)
      | Inr None \<Rightarrow>
          (let d = (DATA w)\<lparr>propre := Some 0\<rparr>;
               w1 = save_data d (w\<lparr>DATA := d\<rparr>)
           in (Inr (Propre_reset), post_history i Log_clean_propre w1)))"

definition clean_sale :: "interaction \<Rightarrow> world \<Rightarrow> (py_error + reply) \<times> world" where
  "clean_sale i w =
     (case check_allowed_and_channel i of
        Inl e \<Rightarrow> (Inl e, w)
      | Inr (Some r) \<Rightarrow> (Inr r, w)
      | Inr None \<Rightarrow>
          (let d = (DATA w)\<lparr>sale := Some 0\<rparr>;
               w1 = save_data d (w\<lparr>DATA := d\<rparr>)
           in (Inr (Sale_reset), post_history i Log_clean_sale w1)))"

definition clean_marchandise ::
  "interaction \<Rightarrow> string \<Rightarrow> world \<Rightarrow> (py_error + reply) \<times> world" where
  "clean_marchandise i nom w =
     (case check_allowed_and_channel i of
        Inl e \<Rightarrow> (Inl e, w)
      | Inr (Some r) \<Rightarrow> (Inr r, w)
      | Inr None \<Rightarrow>
          (let (d0, merch) = setdefault_marchandises (DATA w) in
           if \<not> has_key nom merch then (Inr (Does_not_exist nom), w\<lparr>DATA := d0\<rparr>)
           else
             (let d = d0\<lparr>marchandises := Some (AList.update nom 0 merch)\<rparr>;
                  w1 = save_data d (w\<lparr>DATA := d\<rparr>)
              in (Inr (Marchandise_reset nom), post_history i (Log_clean_marchandise nom) w1))))"

text \<open>
  \<^verbatim>\<open>{k:0 for k in DATA.get('marchandises', {})}\<close>: the keys in their order, each with 0.
\<close>

definition clean_marchandise_all :: "interaction \<Rightarrow> world \<Rightarrow> (py_error + reply) \<times> world" where
  "clean_marchandise_all i w =
     (case check_allowed_and_channel i of
        Inl e \<Rightarrow> (Inl e, w)
      | Inr (Some r) \<Rightarrow> (Inr r, w)
      | Inr None \<Rightarrow>
          (let d = (DATA w)\<lparr>marchandises :=
                      Some (map (\<lambda>k. (k, 0)) (map fst (dict_get (marchandises (DATA w)) [])))\<rparr>;
               w1 = save_data d (w\<lparr>DATA := d\<rparr>)
           in (Inr (All_marchandises_reset), post_history i Log_clean_marchandise_all w1)))"

subsection \<open>Dispatch and runs\<close>

text \<open>The twelve slash commands registered on \<^verbatim>\<open>bot.tree\<close>, with their parameters.\<close>

datatype command =
    Propre_in int
  | Propre_out int
  | Sale_in int
  | Sale_out int
  | New_marchandise string
  | Delete_marchandise string
  | Marchandise_in string int
  | Marchandise_out string int
  | Clean_propre
  | Clean_sale
  | Clean_marchandise string
  | Clean_marchandise_all

fun dispatch :: "interaction \<Rightarrow> command \<Rightarrow> world \<Rightarrow> (py_error + reply) \<times> world" where
  "dispatch i (Propre_in montant) w = propre_in i montant w"
| "dispatch i (Propre_out montant) w = propre_out i montant w"
| "dispatch i (Sale_in montant) w = sale_in i montant w"
| "dispatch i (Sale_out montant) w = sale_out i montant w"
| "dispatch i (New_marchandise nom) w = new_marchandise i nom w"
| "dispatch i (Delete_marchandise nom) w = delete_marchandise i nom w"
| "dispatch i (Marchandise_in nom quantite) w = marchandise_in i nom quantite w"
| "dispatch i (Marchandise_out nom quantite) w = marchandise_out i nom quantite w"
| "dispatch i Clean_propre w = clean_propre i w"
| "dispatch i Clean_sale w = clean_sale i w"
| "dispatch i (Clean_marchandise nom) w = clean_marchandise i nom w"
| "dispatch i Clean_marchandise_all w = clean_marchandise_all i w"

text \<open>A run of the bot: the invocations it serves, one after the other.\<close>

fun run :: "(interaction \<times> command) list \<Rightarrow> world \<Rightarrow> world" where
  "run [] w = w"
| "run ((i, c) # ics) w = run ics (snd (dispatch i c w))"

text \<open>The world at start-up: \<^verbatim>\<open>DATA = load_data()\<close> on a machine without the file.\<close>

definition initial_world :: world where
  "initial_world =
     (let (d, w) = load_data \<lparr>DATA = DEFAULT_DATA, data_file = None, history = []\<rparr>
      in w\<lparr>DATA := d\<rparr>)"

subsection \<open>Vocabulary of the statements\<close>

text \<open>The quantity stored for a name: \<^verbatim>\<open>DATA.get('marchandises', {}).get(nom)\<close>.\<close>

definition quantity :: "ledger \<Rightarrow> string \<Rightarrow> int option" where
  "quantity d nom = map_of (dict_get (marchandises d) []) nom"

text \<open>Both balances and every quantity of the document are at least zero.\<close>

definition nonneg :: "ledger \<Rightarrow> bool" where
  "nonneg d =
     (0 \<le> dict_get (propre d) 0 \<and> 0 \<le> dict_get (sale d) 0 \<and>
      list_all (\<lambda>(nom, q). 0 \<le> q) (dict_get (marchandises d) []))"

text \<open>The amount of an "in" command is at least zero; other commands are not restricted.\<close>

fun adds_nonneg :: "command \<Rightarrow> bool" where
  "adds_nonneg (Propre_in montant) = (0 \<le> montant)"
| "adds_nonneg (Sale_in montant) = (0 \<le> montant)"
| "adds_nonneg (Marchandise_in nom quantite) = (0 \<le> quantite)"
| "adds_nonneg c = True"

text \<open>Concrete inputs: an allowed user calling from the command channel, and a ledger in use.\<close>

definition alpha1 :: user where
  "alpha1 = \<lparr>uid = 549140350887788544, uname = ''Alpha-1'', discriminator = ''0001''\<rparr>"

definition cmd_call :: interaction where
  "cmd_call =
     \<lparr>iuser = alpha1, channel = Some (Named_channel CHANNEL_CMD),
      guild = [CHANNEL_CMD, CHANNEL_HISTORY], utcnow = ''2025-09-12T10:00:00''\<rparr>"

definition stocked_ledger :: ledger where
  "stocked_ledger =
     \<lparr>propre = Some 500, sale = Some 40,
      marchandises = Some [(''crates'', 10), (''boxes'', 3)],
      status_message_ids = Some \<lparr>banque = Some 77, marchandises_msg = None\<rparr>\<rparr>"

definition stocked_world :: world where
  "stocked_world = \<lparr>DATA = stocked_ledger, data_file = Some stocked_ledger, history = []\<rparr>"

text \<open>The same user calling from a direct message with the bot.\<close>

definition dm_call :: interaction where
  "dm_call =
     \<lparr>iuser = alpha1, channel = Some Unnamed_channel, guild = [],
      utcnow = ''2025-09-12T10:00:00''\<rparr>"

text \<open>
  A user whose identifier is not in the list of identifiers and whose name and
  discriminator are in the list of names.
\<close>

definition legacy_name_user :: user where
  "legacy_name_user = \<lparr>uid = 1, uname = ''Alpha-4'', discriminator = ''0004''\<rparr>"

text \<open>
  The document has the merchandise dictionary and the name is not a key of it. (On a
  document without the key \<^verbatim>\<open>marchandises\<close>, \<^verbatim>\<open>setdefault\<close> writes the key before the name
  is looked up.)
\<close>

definition absent :: "ledger \<Rightarrow> string \<Rightarrow> bool" where
  "absent d nom = (case marchandises d of None \<Rightarrow> False | Some merch \<Rightarrow> \<not> has_key nom merch)"

text \<open>The second document differs from the first in one field at most.\<close>

definition keeps_all_but_propre :: "ledger \<Rightarrow> ledger \<Rightarrow> bool" where
  "keeps_all_but_propre d d' =
     (sale d' = sale d \<and> marchandises d' = marchandises d \<and>
      status_message_ids d' = status_message_ids d)"

definition keeps_all_but_sale :: "ledger \<Rightarrow> ledger \<Rightarrow> bool" where
  "keeps_all_but_sale d d' =
     (propre d' = propre d \<and> marchandises d' = marchandises d \<and>
      status_message_ids d' = status_message_ids d)"

definition keeps_all_but_marchandises :: "ledger \<Rightarrow> ledger \<Rightarrow> bool" where
  "keeps_all_but_marchandises d d' =
     (propre d' = propre d \<and> sale d' = sale d \<and>
      status_message_ids d' = status_message_ids d)"

text \<open>
  What the start-up world has and every call keeps: the three keys the handlers read,
  distinct item names, and a file that holds the document in memory.
\<close>

definition well_formed :: "world \<Rightarrow> bool" where
  "well_formed w =
     (propre (DATA w) \<noteq> None \<and> sale (DATA w) \<noteq> None \<and> marchandises (DATA w) \<noteq> None \<and>
      distinct (map fst (dict_get (marchandises (DATA w)) [])) \<and>
      data_file w = Some (DATA w))"

section \<open>Basic facts\<close>

lemmas handler_defs =
  propre_in_def propre_out_def sale_in_def sale_out_def
  new_marchandise_def delete_marchandise_def marchandise_in_def marchandise_out_def
  clean_propre_def clean_sale_def clean_marchandise_def clean_marchandise_all_def

lemma cmd_call_accepted: "check_allowed_and_channel cmd_call = Inr None"
  by (simp add: check_allowed_and_channel_def cmd_call_def is_user_allowed_def alpha1_def
      ALLOWED_USER_IDS_def)

lemma initial_world_eq:
  "initial_world = \<lparr>DATA = DEFAULT_DATA, data_file = Some DEFAULT_DATA, history = []\<rparr>"
  by (simp add: initial_world_def load_data_def)

lemma DATA_post_history [simp]: "DATA (post_history i a w) = DATA w"
  by (simp add: post_history_def split: option.splits)

lemma data_file_post_history [simp]: "data_file (post_history i a w) = data_file w"
  by (simp add: post_history_def split: option.splits)

lemma DATA_save_data [simp]: "DATA (save_data d w) = DATA w"
  by (simp add: save_data_def)

lemma has_key_map_of: "has_key nom merch \<longleftrightarrow> map_of merch nom \<noteq> None"
  by (simp add: has_key_def map_of_eq_None_iff)

lemma quantity_Some:
  "quantity d nom = Some q \<Longrightarrow> \<exists>merch. marchandises d = Some merch \<and> map_of merch nom = Some q"
  by (cases "marchandises d") (simp_all add: quantity_def dict_get_def)

lemma quantity_update:
  "quantity (d\<lparr>marchandises := Some (AList.update nom v merch)\<rparr>) nom' =
     (if nom' = nom then Some v else map_of merch nom')"
  by (simp add: quantity_def dict_get_def update_conv')

subsection \<open>The document after an accepted call\<close>

lemma accepted_propre_in:
  "check_allowed_and_channel i = Inr None \<Longrightarrow>
   DATA (snd (propre_in i a w)) = (DATA w)\<lparr>propre := Some (dict_get (propre (DATA w)) 0 + a)\<rparr>"
  by (simp add: propre_in_def Let_def)

lemma accepted_propre_out:
  "check_allowed_and_channel i = Inr None \<Longrightarrow>
   DATA (snd (propre_out i a w)) =
     (DATA w)\<lparr>propre := Some (max 0 (dict_get (propre (DATA w)) 0 - a))\<rparr>"
  by (simp add: propre_out_def Let_def)

lemma accepted_sale_in:
  "check_allowed_and_channel i = Inr None \<Longrightarrow>
   DATA (snd (sale_in i a w)) = (DATA w)\<lparr>sale := Some (dict_get (sale (DATA w)) 0 + a)\<rparr>"
  by (simp add: sale_in_def Let_def)

lemma accepted_sale_out:
  "check_allowed_and_channel i = Inr None \<Longrightarrow>
   DATA (snd (sale_out i a w)) =
     (DATA w)\<lparr>sale := Some (max 0 (dict_get (sale (DATA w)) 0 - a))\<rparr>"
  by (simp add: sale_out_def Let_def)

lemma accepted_marchandise_in:
  "check_allowed_and_channel i = Inr None \<Longrightarrow> marchandises (DATA w) = Some merch \<Longrightarrow>
   map_of merch nom = Some q \<Longrightarrow>
   DATA (snd (marchandise_in i nom a w)) =
     (DATA w)\<lparr>marchandises := Some (AList.update nom (q + a) merch)\<rparr>"
  by (simp add: marchandise_in_def setdefault_marchandises_def has_key_map_of dict_get_def
      Let_def)

lemma accepted_marchandise_out:
  "check_allowed_and_channel i = Inr None \<Longrightarrow> marchandises (DATA w) = Some merch \<Longrightarrow>
   map_of merch nom = Some q \<Longrightarrow>
   DATA (snd (marchandise_out i nom a w)) =
     (DATA w)\<lparr>marchandises := Some (AList.update nom (max 0 (q - a)) merch)\<rparr>"
  by (simp add: marchandise_out_def setdefault_marchandises_def has_key_map_of dict_get_def
      Let_def)

lemma accepted_clean_marchandise:
  "check_allowed_and_channel i = Inr None \<Longrightarrow> marchandises (DATA w) = Some merch \<Longrightarrow>
   map_of merch nom = Some q \<Longrightarrow>
   DATA (snd (clean_marchandise i nom w)) =
     (DATA w)\<lparr>marchandises := Some (AList.update nom 0 merch)\<rparr>"
  by (simp add: clean_marchandise_def setdefault_marchandises_def has_key_map_of Let_def)

section \<open>Balance out\<close>

text \<open>
  Claim C2. An accepted balance-out call, clean or dirty, with any integer amount \<open>a\<close>
  on a balance \<open>b\<close> (the value \<^verbatim>\<open>DATA.get(key, 0)\<close> reads, so every \<open>b \<ge> 0\<close> is covered)
  leaves \<open>max 0 (b - a)\<close>. From the start-up document, clean-money-in 500 gives 500, and
  clean-money-out 700 after it gives 0.
\<close>

theorem balance_out_clamps:
  assumes "check_allowed_and_channel i = Inr None"
  shows "propre (DATA (snd (propre_out i a w))) = Some (max 0 (dict_get (propre (DATA w)) 0 - a)) \<and>
         sale (DATA (snd (sale_out i a w))) = Some (max 0 (dict_get (sale (DATA w)) 0 - a)) \<and>
         propre (DATA (run [(i, Propre_in 500)] initial_world)) = Some 500 \<and>
         propre (DATA (run [(i, Propre_in 500), (i, Propre_out 700)] initial_world)) = Some 0"
  using assms
  by (simp add: accepted_propre_out accepted_sale_out accepted_propre_in initial_world_eq
      DEFAULT_DATA_def dict_get_def)

theorem balance_out_clamps_witness:
  "check_allowed_and_channel cmd_call = Inr None \<and>
   propre (DATA (snd (propre_out cmd_call 700 stocked_world))) = Some 0 \<and>
   sale (DATA (snd (sale_out cmd_call 15 stocked_world))) = Some 25 \<and>
   propre (DATA (run [(cmd_call, Propre_in 500)] initial_world)) = Some 500 \<and>
   propre (DATA (run [(cmd_call, Propre_in 500), (cmd_call, Propre_out 700)] initial_world)) =
     Some 0"
proof -
  have acc: "check_allowed_and_channel cmd_call = Inr None"
    by (rule cmd_call_accepted)
  have d: "propre (DATA stocked_world) = Some 500" "sale (DATA stocked_world) = Some 40"
    by (simp_all add: stocked_world_def stocked_ledger_def)
  from balance_out_clamps [OF acc, of 700 stocked_world]
    balance_out_clamps [OF acc, of 15 stocked_world]
  show ?thesis
    using acc d by (simp add: dict_get_def)
qed

section \<open>Non-negative values\<close>

lemma list_all_update:
  "list_all P al \<Longrightarrow> P (k, v) \<Longrightarrow> list_all P (AList.update k v al)"
  by (induction al) auto

lemma list_all_delete: "list_all P al \<Longrightarrow> list_all P (AList.delete k al)"
  by (simp add: AList.delete_eq list_all_iff)

lemma list_all_zero: "list_all (\<lambda>(nom, q). (0::int) \<le> q) (map (\<lambda>x. (f x, 0)) xs)"
  by (induction xs) auto

lemma list_all_map_of:
  "list_all (\<lambda>(nom, q). (0::int) \<le> q) al \<Longrightarrow> map_of al k = Some v \<Longrightarrow> 0 \<le> v"
  by (auto simp: list_all_iff dest: map_of_SomeD)

lemma nonneg_dispatch:
  "nonneg (DATA w) \<Longrightarrow> adds_nonneg c \<Longrightarrow> nonneg (DATA (snd (dispatch i c w)))"
  by (cases c; cases "check_allowed_and_channel i"; cases "marchandises (DATA w)")
     (auto simp: nonneg_def handler_defs dict_get_def setdefault_marchandises_def Let_def
        list_all_zero comp_def
        intro!: list_all_update list_all_delete dest: list_all_map_of split: option.splits)

lemma nonneg_run:
  "nonneg (DATA w) \<Longrightarrow> list_all (\<lambda>(j, c). adds_nonneg c) ics \<Longrightarrow> nonneg (DATA (run ics w))"
  by (induction ics arbitrary: w) (auto simp: nonneg_dispatch)

lemma nonneg_initial: "nonneg (DATA initial_world)"
  by (simp add: nonneg_def initial_world_eq DEFAULT_DATA_def dict_get_def)

lemma quantity_marchandise_out:
  assumes "check_allowed_and_channel i = Inr None" and "quantity (DATA w) nom = Some q"
  shows "quantity (DATA (snd (marchandise_out i nom a w))) nom = Some (max 0 (q - a))"
proof -
  from assms(2) obtain merch where m: "marchandises (DATA w) = Some merch" "map_of merch nom = Some q"
    by (auto dest: quantity_Some)
  show ?thesis
    by (simp add: accepted_marchandise_out [OF assms(1) m] quantity_update)
qed

text \<open>
  Claim C1, as stated, fails: from the start-up document, whose values are all zero, an
  accepted clean-money-in with the amount \<open>-500\<close> leaves the clean balance \<open>-500\<close>. The
  "in" handlers add the amount and do not clamp.
\<close>

theorem in_with_negative_amount_counterexample:
  "check_allowed_and_channel cmd_call = Inr None \<and> nonneg (DATA initial_world) \<and>
   propre (DATA (snd (propre_in cmd_call (- 500) initial_world))) = Some (- 500) \<and>
   \<not> nonneg (DATA (snd (propre_in cmd_call (- 500) initial_world)))"
  by (simp add: cmd_call_accepted accepted_propre_in initial_world_eq DEFAULT_DATA_def
      nonneg_def dict_get_def)

text \<open>
  Claim C1, amended. From a document whose balances and quantities are at least zero, in
  particular from the start-up document, any run of commands (accepted or rejected) in
  which every "in" amount is at least zero leaves both balances and every quantity at
  least zero; the amounts of "out" commands are any integers, negative ones included. An
  accepted "out" call whose amount exceeds the stored value (clean balance, dirty
  balance, or the quantity of an existing item) leaves exactly zero.
\<close>

theorem values_stay_nonneg:
  "(nonneg (DATA w) \<and> list_all (\<lambda>(j, c). adds_nonneg c) ics \<longrightarrow> nonneg (DATA (run ics w))) \<and>
   (list_all (\<lambda>(j, c). adds_nonneg c) ics \<longrightarrow> nonneg (DATA (run ics initial_world))) \<and>
   (check_allowed_and_channel i = Inr None \<and> dict_get (propre (DATA w)) 0 < a \<longrightarrow>
      propre (DATA (snd (propre_out i a w))) = Some 0) \<and>
   (check_allowed_and_channel i = Inr None \<and> dict_get (sale (DATA w)) 0 < a \<longrightarrow>
      sale (DATA (snd (sale_out i a w))) = Some 0) \<and>
   (check_allowed_and_channel i = Inr None \<and> quantity (DATA w) nom = Some q \<and> q < a \<longrightarrow>
      quantity (DATA (snd (marchandise_out i nom a w))) nom = Some 0)"
  by (simp add: nonneg_run nonneg_initial accepted_propre_out accepted_sale_out
      quantity_marchandise_out)

theorem values_stay_nonneg_witness:
  "nonneg (DATA stocked_world) \<and>
   list_all (\<lambda>(j, c). adds_nonneg c)
     [(cmd_call, Propre_in 20), (cmd_call, Propre_out 700), (cmd_call, Sale_out (- 3)),
      (cmd_call, New_marchandise ''gold''), (cmd_call, Marchandise_out ''boxes'' 5),
      (cmd_call, Marchandise_in ''crates'' 0)] \<and>
   nonneg (DATA (run
     [(cmd_call, Propre_in 20), (cmd_call, Propre_out 700), (cmd_call, Sale_out (- 3)),
      (cmd_call, New_marchandise ''gold''), (cmd_call, Marchandise_out ''boxes'' 5),
      (cmd_call, Marchandise_in ''crates'' 0)]
     stocked_world)) \<and>
   nonneg (DATA (run
     [(cmd_call, Propre_in 20), (cmd_call, Propre_out 700), (cmd_call, Sale_out (- 3)),
      (cmd_call, New_marchandise ''gold''), (cmd_call, Marchandise_out ''boxes'' 5),
      (cmd_call, Marchandise_in ''crates'' 0)]
     initial_world)) \<and>
   check_allowed_and_channel cmd_call = Inr None \<and>
   dict_get (propre (DATA initial_world)) 0 < 700 \<and>
   propre (DATA (snd (propre_out cmd_call 700 initial_world))) = Some 0 \<and>
   dict_get (sale (DATA initial_world)) 0 < 700 \<and>
   sale (DATA (snd (sale_out cmd_call 700 initial_world))) = Some 0 \<and>
   quantity (DATA stocked_world) ''boxes'' = Some 3 \<and> (3::int) < 5 \<and>
   quantity (DATA (snd (marchandise_out cmd_call ''boxes'' 5 stocked_world))) ''boxes'' = Some 0"
proof -
  let ?ics = "[(cmd_call, Propre_in 20), (cmd_call, Propre_out 700), (cmd_call, Sale_out (- 3)),
      (cmd_call, New_marchandise ''gold''), (cmd_call, Marchandise_out ''boxes'' 5),
      (cmd_call, Marchandise_in ''crates'' 0)]"
  have h1: "nonneg (DATA stocked_world)"
    by (simp add: nonneg_def stocked_world_def stocked_ledger_def dict_get_def)
  have h2: "list_all (\<lambda>(j, c). adds_nonneg c) ?ics"
    by simp
  have h3: "check_allowed_and_channel cmd_call = Inr None"
    by (rule cmd_call_accepted)
  have h4: "dict_get (propre (DATA initial_world)) 0 < 700"
    and h5: "dict_get (sale (DATA initial_world)) 0 < 700"
    by (simp_all add: initial_world_eq DEFAULT_DATA_def dict_get_def)
  have h6: "quantity (DATA stocked_world) ''boxes'' = Some 3"
    by (simp add: stocked_world_def stocked_ledger_def dict_get_def quantity_def)
  have h7: "(3::int) < 5" by simp
  from values_stay_nonneg
      [where w = stocked_world and ics = ?ics and i = cmd_call and nom = "''boxes''"
        and q = 3 and a = 5]
    values_stay_nonneg
      [where w = initial_world and ics = ?ics and i = cmd_call and nom = "''boxes''"
        and q = 3 and a = 700]
    h1 h2 h3 h4 h5 h6 h7
  show ?thesis by simp
qed

section \<open>Balance in and merchandise in\<close>

lemma quantity_marchandise_in:
  assumes "check_allowed_and_channel i = Inr None" and "quantity (DATA w) nom = Some q"
  shows "quantity (DATA (snd (marchandise_in i nom a w))) nom = Some (q + a)"
proof -
  from assms(2) obtain merch where m: "marchandises (DATA w) = Some merch" "map_of merch nom = Some q"
    by (auto dest: quantity_Some)
  show ?thesis
    by (simp add: accepted_marchandise_in [OF assms(1) m] quantity_update)
qed

text \<open>
  Claim C3. An accepted balance-in call, clean or dirty, with any integer amount \<open>a\<close> on a
  balance \<open>b\<close> (the value \<^verbatim>\<open>DATA.get(key, 0)\<close> reads) leaves \<open>b + a\<close>, on every document;
  an accepted merchandise-in call on an existing item of quantity \<open>q\<close> leaves the quantity
  \<open>q + a\<close>.
\<close>

theorem in_adds_amount:
  assumes "check_allowed_and_channel i = Inr None"
  shows "propre (DATA (snd (propre_in i a w))) = Some (dict_get (propre (DATA w)) 0 + a) \<and>
         sale (DATA (snd (sale_in i a w))) = Some (dict_get (sale (DATA w)) 0 + a) \<and>
         (quantity (DATA w) nom = Some q \<longrightarrow>
            quantity (DATA (snd (marchandise_in i nom a w))) nom = Some (q + a))"
  using assms
  by (simp add: accepted_propre_in accepted_sale_in quantity_marchandise_in)

theorem in_adds_amount_witness:
  "check_allowed_and_channel cmd_call = Inr None \<and>
   propre (DATA (snd (propre_in cmd_call 25 initial_world))) = Some 25 \<and>
   sale (DATA (snd (sale_in cmd_call 25 initial_world))) = Some 25 \<and>
   propre (DATA (snd (propre_in cmd_call 25 stocked_world))) = Some 525 \<and>
   sale (DATA (snd (sale_in cmd_call (- 25) stocked_world))) = Some 15 \<and>
   quantity (DATA stocked_world) ''crates'' = Some 10 \<and>
   quantity (DATA (snd (marchandise_in cmd_call ''crates'' 25 stocked_world))) ''crates'' = Some 35"
proof -
  have acc: "check_allowed_and_channel cmd_call = Inr None"
    by (rule cmd_call_accepted)
  have q: "quantity (DATA stocked_world) ''crates'' = Some 10"
    by (simp add: stocked_world_def stocked_ledger_def dict_get_def quantity_def)
  have d: "dict_get (propre (DATA stocked_world)) 0 = 500"
    "dict_get (sale (DATA stocked_world)) 0 = 40"
    "dict_get (propre (DATA initial_world)) 0 = 0"
    "dict_get (sale (DATA initial_world)) 0 = 0"
    by (simp_all add: stocked_world_def stocked_ledger_def initial_world_eq DEFAULT_DATA_def
        dict_get_def)
  from in_adds_amount [OF acc, where a = 25 and w = initial_world]
    in_adds_amount
      [OF acc, where a = 25 and w = stocked_world and nom = "''crates''" and q = 10]
    in_adds_amount [OF acc, where a = "- 25" and w = stocked_world]
    acc q d
  show ?thesis by simp
qed

section \<open>Creating an item that exists\<close>

text \<open>
  Claim C4. When the name already has a quantity, an accepted create-item call on it
  replies that the item exists and returns the world as it was: the document (the stored
  quantity with it), the file and the history channel are unchanged.
\<close>

theorem duplicate_is_noop:
  assumes "check_allowed_and_channel i = Inr None" and "quantity (DATA w) nom = Some q"
  shows "new_marchandise i nom w = (Inr (Already_exists nom), w)"
proof -
  from assms(2) obtain merch where m: "marchandises (DATA w) = Some merch" "map_of merch nom = Some q"
    by (auto dest: quantity_Some)
  then show ?thesis
    using assms(1)
    by (simp add: new_marchandise_def setdefault_marchandises_def has_key_map_of)
qed

theorem duplicate_is_noop_witness:
  "check_allowed_and_channel cmd_call = Inr None \<and>
   quantity (DATA stocked_world) ''crates'' = Some 10 \<and>
   new_marchandise cmd_call ''crates'' stocked_world =
     (Inr (Already_exists ''crates''), stocked_world)"
proof -
  have acc: "check_allowed_and_channel cmd_call = Inr None"
    by (rule cmd_call_accepted)
  have q: "quantity (DATA stocked_world) ''crates'' = Some 10"
    by (simp add: stocked_world_def stocked_ledger_def dict_get_def quantity_def)
  from duplicate_is_noop [OF acc q] acc q
  show ?thesis by simp
qed

section \<open>Calls that fail the permission check\<close>

lemma rejected_dispatch:
  "check_allowed_and_channel i = Inr (Some r) \<Longrightarrow> dispatch i c w = (Inr r, w)"
  by (cases c) (simp_all add: handler_defs)

lemma raised_dispatch:
  "check_allowed_and_channel i = Inl e \<Longrightarrow> dispatch i c w = (Inl e, w)"
  by (cases c) (simp_all add: handler_defs)

text \<open>Whatever way the check fails, the document, the file and the history stay.\<close>

lemma failed_check_keeps_world:
  assumes "check_allowed_and_channel i \<noteq> Inr None"
  shows "snd (dispatch i c w) = w"
proof (cases "check_allowed_and_channel i")
  case (Inl e)
  then show ?thesis by (simp add: raised_dispatch)
next
  case (Inr ro)
  with assms obtain r where "check_allowed_and_channel i = Inr (Some r)"
    by (cases ro) simp_all
  then show ?thesis by (simp add: rejected_dispatch)
qed

text \<open>
  The rejection is sent when the user is not allowed, when there is no channel, and when
  the channel has a name other than the command channel's.
\<close>

lemma rejection_sent:
  "\<not> is_user_allowed (iuser i) \<Longrightarrow> dispatch i c w = (Inr Not_authorized, w)"
  "is_user_allowed (iuser i) \<Longrightarrow> channel i = None \<Longrightarrow> dispatch i c w = (Inr Wrong_channel, w)"
  "is_user_allowed (iuser i) \<Longrightarrow> channel i = Some (Named_channel name) \<Longrightarrow>
     name \<noteq> CHANNEL_CMD \<Longrightarrow> dispatch i c w = (Inr Wrong_channel, w)"
  by (simp_all add: rejected_dispatch check_allowed_and_channel_def)

lemma unnamed_channel_raises:
  "is_user_allowed (iuser i) \<Longrightarrow> channel i = Some Unnamed_channel \<Longrightarrow>
   dispatch i c w = (Inl AttributeError, w)"
  by (simp add: raised_dispatch check_allowed_and_channel_def)

text \<open>
  Claim C6 holds for the state and fails for the reply. An allowed user who calls a
  command from a direct message is not in the command channel, so the access check
  fails; the check reads \<^verbatim>\<open>interaction.channel.name\<close> of a channel that has no name, the
  exception \<^verbatim>\<open>AttributeError\<close> leaves the handler and no rejection is sent. The world is as
  it was.
\<close>

theorem direct_message_call_raises:
  "is_user_allowed (iuser dm_call) \<and>
   channel dm_call \<noteq> Some (Named_channel CHANNEL_CMD) \<and>
   check_allowed_and_channel dm_call = Inl AttributeError \<and>
   dispatch dm_call (Propre_in 5) stocked_world = (Inl AttributeError, stocked_world)"
proof -
  have a: "is_user_allowed (iuser dm_call)"
    by (simp add: dm_call_def is_user_allowed_def alpha1_def ALLOWED_USER_IDS_def)
  have c: "channel dm_call = Some Unnamed_channel"
    by (simp add: dm_call_def)
  have r: "check_allowed_and_channel dm_call = Inl AttributeError"
    using a c by (simp add: check_allowed_and_channel_def)
  show ?thesis
    using a c r raised_dispatch [OF r, of "Propre_in 5" stocked_world] by simp
qed

section \<open>Saving and loading\<close>

text \<open>
  Claim C7. Loading after saving a document returns that document, every field of it,
  and leaves the saved file in place.
\<close>

theorem save_then_load:
  "load_data (save_data doc w) = (doc, save_data doc w)"
  by (simp add: load_data_def save_data_def)

section \<open>The permission predicate\<close>

text \<open>
  Claim C9. A user is allowed exactly when the identifier is in the list of identifiers
  or the string name, \<open>#\<close>, discriminator is in the list of names. The list of
  identifiers of the configuration is not empty, and the list of names still decides: a
  user whose identifier is not listed and whose name is listed is allowed. (Whether the
  second list is read after the first one matched is not observable in the result; the
  statement is about the result for every user.)
\<close>

theorem is_user_allowed_iff:
  "is_user_allowed u =
     (uid u \<in> set ALLOWED_USER_IDS \<or>
      uname u @ ''#'' @ discriminator u \<in> set ALLOWED_USER_NAMES) \<and>
   ALLOWED_USER_IDS \<noteq> [] \<and>
   uid legacy_name_user \<notin> set ALLOWED_USER_IDS \<and>
   is_user_allowed legacy_name_user"
  by (simp add: is_user_allowed_def legacy_name_user_def ALLOWED_USER_IDS_def
      ALLOWED_USER_NAMES_def)

section \<open>Items that do not exist\<close>

lemma has_key_update: "has_key nom (AList.update k v al) \<longleftrightarrow> nom = k \<or> has_key nom al"
  by (auto simp: has_key_def dom_update)

lemma has_key_delete: "has_key nom (AList.delete k al) \<longleftrightarrow> nom \<noteq> k \<and> has_key nom al"
  by (auto simp: has_key_def delete_keys)

lemma has_key_zeroed: "has_key nom (map ((\<lambda>k. (k, 0)) \<circ> fst) al) \<longleftrightarrow> has_key nom al"
  by (simp add: has_key_def comp_def)

lemma absent_dispatch:
  "absent (DATA w) nom \<Longrightarrow> c \<noteq> New_marchandise nom \<Longrightarrow> absent (DATA (snd (dispatch i c w))) nom"
  by (cases c; cases "check_allowed_and_channel i"; cases "marchandises (DATA w)")
     (auto simp: absent_def handler_defs setdefault_marchandises_def Let_def dict_get_def
        has_key_update has_key_delete has_key_zeroed split: option.splits)

lemma absent_run:
  "absent (DATA w) nom \<Longrightarrow> list_all (\<lambda>(j, c). c \<noteq> New_marchandise nom) ics \<Longrightarrow>
   absent (DATA (run ics w)) nom"
  by (induction ics arbitrary: w) (auto simp: absent_dispatch)

lemma absent_not_found:
  "check_allowed_and_channel i = Inr None \<Longrightarrow> absent (DATA w) nom \<Longrightarrow>
   delete_marchandise i nom w = (Inr (Does_not_exist nom), w) \<and>
   marchandise_in i nom a w = (Inr (Does_not_exist_use_new nom), w)"
  by (cases "marchandises (DATA w)")
     (simp_all add: absent_def delete_marchandise_def marchandise_in_def
        setdefault_marchandises_def)

lemma not_found_without_key:
  "check_allowed_and_channel i = Inr None \<Longrightarrow> marchandises (DATA w) = None \<Longrightarrow>
   delete_marchandise i nom w =
     (Inr (Does_not_exist nom), w\<lparr>DATA := (DATA w)\<lparr>marchandises := Some []\<rparr>\<rparr>) \<and>
   marchandise_in i nom a w =
     (Inr (Does_not_exist_use_new nom), w\<lparr>DATA := (DATA w)\<lparr>marchandises := Some []\<rparr>\<rparr>)"
  by (simp add: delete_marchandise_def marchandise_in_def setdefault_marchandises_def
      has_key_def)

lemma deleted_is_absent:
  assumes "check_allowed_and_channel i = Inr None" and "quantity (DATA w) nom = Some q"
  shows "fst (delete_marchandise i nom w) = Inr (Marchandise_deleted nom) \<and>
         absent (DATA (snd (delete_marchandise i nom w))) nom"
proof -
  from assms(2) obtain merch where m: "marchandises (DATA w) = Some merch" "map_of merch nom = Some q"
    by (auto dest: quantity_Some)
  then show ?thesis
    using assms(1)
    by (simp add: delete_marchandise_def setdefault_marchandises_def has_key_map_of Let_def
        absent_def delete_conv')
qed

lemma created_is_present:
  assumes "check_allowed_and_channel i = Inr None" and "absent (DATA w) nom"
  shows "fst (new_marchandise i nom w) = Inr (Marchandise_added nom) \<and>
         quantity (DATA (snd (new_marchandise i nom w))) nom = Some 0"
  using assms
  by (cases "marchandises (DATA w)")
     (simp_all add: new_marchandise_def setdefault_marchandises_def absent_def Let_def
        quantity_update)

text \<open>
  Claim C5. On a document that has the merchandise dictionary, the start-up document
  among them, an accepted delete of a name that is not in it replies that the item does
  not exist and returns the world as it was. After an accepted delete of an existing
  name, and after any further run of commands none of which creates that name again, an
  accepted item-in on the name replies that the item does not exist and returns the world
  as it was; once the name is created again, item-in on it is accepted. (Every world
  reached from the start-up world has the dictionary; on a document without the key, the
  not-found replies are the same and \<^verbatim>\<open>setdefault\<close> leaves an empty dictionary in memory:
  \<open>not_found_without_key\<close>.)
\<close>

theorem absent_item_not_found:
  assumes "check_allowed_and_channel i = Inr None"
  shows "(absent (DATA w) gone \<longrightarrow>
            delete_marchandise i gone w = (Inr (Does_not_exist gone), w)) \<and>
         (check_allowed_and_channel i' = Inr None \<and> quantity (DATA w) nom = Some q \<and>
          list_all (\<lambda>(j, c). c \<noteq> New_marchandise nom) ics \<longrightarrow>
            fst (delete_marchandise i nom w) = Inr (Marchandise_deleted nom) \<and>
            marchandise_in i' nom a (run ics (snd (delete_marchandise i nom w))) =
              (Inr (Does_not_exist_use_new nom), run ics (snd (delete_marchandise i nom w))) \<and>
            fst (marchandise_in i' nom a
                  (snd (new_marchandise i nom (run ics (snd (delete_marchandise i nom w)))))) =
              Inr (Stock_added a nom))"
proof (intro conjI impI)
  assume "absent (DATA w) gone"
  then show "delete_marchandise i gone w = (Inr (Does_not_exist gone), w)"
    using absent_not_found [OF assms] by simp
next
  assume h: "check_allowed_and_channel i' = Inr None \<and> quantity (DATA w) nom = Some q \<and>
    list_all (\<lambda>(j, c). c \<noteq> New_marchandise nom) ics"
  let ?w1 = "snd (delete_marchandise i nom w)"
  let ?w2 = "run ics ?w1"
  let ?w3 = "snd (new_marchandise i nom ?w2)"
  from h have acc': "check_allowed_and_channel i' = Inr None"
    and q: "quantity (DATA w) nom = Some q"
    and l: "list_all (\<lambda>(j, c). c \<noteq> New_marchandise nom) ics"
    by simp_all
  have d: "fst (delete_marchandise i nom w) = Inr (Marchandise_deleted nom)"
    "absent (DATA ?w1) nom"
    using deleted_is_absent [OF assms q] by simp_all
  have a2: "absent (DATA ?w2) nom"
    using d(2) l by (rule absent_run)
  have q3: "quantity (DATA ?w3) nom = Some 0"
    using created_is_present [OF assms a2] by simp
  then obtain merch where m: "marchandises (DATA ?w3) = Some merch" "map_of merch nom = Some 0"
    by (auto dest: quantity_Some)
  show "fst (delete_marchandise i nom w) = Inr (Marchandise_deleted nom)"
    by (rule d(1))
  show "marchandise_in i' nom a ?w2 = (Inr (Does_not_exist_use_new nom), ?w2)"
    using absent_not_found [OF acc' a2] by simp
  show "fst (marchandise_in i' nom a ?w3) = Inr (Stock_added a nom)"
    using acc' m
    by (simp add: marchandise_in_def setdefault_marchandises_def has_key_map_of Let_def)
qed

theorem absent_item_not_found_witness:
  "check_allowed_and_channel cmd_call = Inr None \<and>
   absent (DATA initial_world) ''gold'' \<and>
   delete_marchandise cmd_call ''gold'' initial_world =
     (Inr (Does_not_exist ''gold''), initial_world) \<and>
   absent (DATA stocked_world) ''gold'' \<and>
   delete_marchandise cmd_call ''gold'' stocked_world =
     (Inr (Does_not_exist ''gold''), stocked_world) \<and>
   quantity (DATA stocked_world) ''crates'' = Some 10 \<and>
   list_all (\<lambda>(j, c). c \<noteq> New_marchandise ''crates'')
     [(cmd_call, New_marchandise ''gold''), (cmd_call, Marchandise_in ''crates'' 4),
      (cmd_call, Clean_marchandise_all)] \<and>
   fst (delete_marchandise cmd_call ''crates'' stocked_world) =
     Inr (Marchandise_deleted ''crates'') \<and>
   fst (marchandise_in cmd_call ''crates'' 7
         (run [(cmd_call, New_marchandise ''gold''), (cmd_call, Marchandise_in ''crates'' 4),
               (cmd_call, Clean_marchandise_all)]
            (snd (delete_marchandise cmd_call ''crates'' stocked_world)))) =
     Inr (Does_not_exist_use_new ''crates'') \<and>
   fst (marchandise_in cmd_call ''crates'' 7
         (snd (new_marchandise cmd_call ''crates''
           (run [(cmd_call, New_marchandise ''gold''), (cmd_call, Marchandise_in ''crates'' 4),
                 (cmd_call, Clean_marchandise_all)]
              (snd (delete_marchandise cmd_call ''crates'' stocked_world)))))) =
     Inr (Stock_added 7 ''crates'')"
proof -
  let ?ics = "[(cmd_call, New_marchandise ''gold''), (cmd_call, Marchandise_in ''crates'' 4),
      (cmd_call, Clean_marchandise_all)]"
  have acc: "check_allowed_and_channel cmd_call = Inr None"
    by (rule cmd_call_accepted)
  have g0: "absent (DATA initial_world) ''gold''"
    by (simp add: absent_def has_key_def initial_world_eq DEFAULT_DATA_def)
  have g: "absent (DATA stocked_world) ''gold''"
    by (simp add: absent_def has_key_def stocked_world_def stocked_ledger_def)
  have q: "quantity (DATA stocked_world) ''crates'' = Some 10"
    by (simp add: stocked_world_def stocked_ledger_def dict_get_def quantity_def)
  have l: "list_all (\<lambda>(j, c). c \<noteq> New_marchandise ''crates'') ?ics"
    by simp
  from absent_item_not_found [OF acc, where w = initial_world and gone = "''gold''"]
    absent_item_not_found
      [OF acc, where w = stocked_world and gone = "''gold''" and i' = cmd_call
        and nom = "''crates''" and q = 10 and ics = ?ics and a = 7]
    acc g0 g q l
  show ?thesis by simp
qed

section \<open>Resets\<close>

lemma dict_get_Some: "dict_get (Some x) dflt = x"
  by (simp add: dict_get_def)

lemma map_fst_zeroed: "map fst (map (\<lambda>k. (k, 0)) ks) = ks"
  by (induction ks) simp_all

lemma list_all_zeroed: "list_all (\<lambda>(k, v). v = (0::int)) (map (\<lambda>k. (k, 0)) ks)"
  by (induction ks) simp_all

lemma accepted_clean_marchandise_all:
  "check_allowed_and_channel i = Inr None \<Longrightarrow>
   DATA (snd (clean_marchandise_all i w)) =
     (DATA w)\<lparr>marchandises :=
       Some (map (\<lambda>k. (k, 0)) (map fst (dict_get (marchandises (DATA w)) [])))\<rparr>"
  by (simp add: clean_marchandise_all_def Let_def)

lemma accepted_clean_propre:
  "check_allowed_and_channel i = Inr None \<Longrightarrow>
   DATA (snd (clean_propre i w)) = (DATA w)\<lparr>propre := Some 0\<rparr>"
  by (simp add: clean_propre_def Let_def)

lemma accepted_clean_sale:
  "check_allowed_and_channel i = Inr None \<Longrightarrow>
   DATA (snd (clean_sale i w)) = (DATA w)\<lparr>sale := Some 0\<rparr>"
  by (simp add: clean_sale_def Let_def)

lemma quantity_clean_marchandise:
  assumes "check_allowed_and_channel i = Inr None" and "quantity (DATA w) nom = Some q"
  shows "quantity (DATA (snd (clean_marchandise i nom w))) nom = Some 0"
proof -
  from assms(2) obtain merch where m: "marchandises (DATA w) = Some merch" "map_of merch nom = Some q"
    by (auto dest: quantity_Some)
  show ?thesis
    by (simp add: accepted_clean_marchandise [OF assms(1) m] quantity_update)
qed

text \<open>
  Claim C8. Accepted resets give zero whatever was stored, on every document: reset-clean
  for the clean balance, reset-dirty for the dirty balance, reset-item for the quantity
  of an existing item; reset-all-items leaves the item names as they were, in their
  order, each with quantity zero, and turns crates 10, boxes 3 into crates 0, boxes 0.
\<close>

theorem reset_gives_zero:
  assumes "check_allowed_and_channel i = Inr None"
  shows "propre (DATA (snd (clean_propre i w))) = Some 0 \<and>
         sale (DATA (snd (clean_sale i w))) = Some 0 \<and>
         (quantity (DATA w) nom = Some q \<longrightarrow>
            quantity (DATA (snd (clean_marchandise i nom w))) nom = Some 0) \<and>
         map fst (dict_get (marchandises (DATA (snd (clean_marchandise_all i w)))) []) =
           map fst (dict_get (marchandises (DATA w)) []) \<and>
         list_all (\<lambda>(k, v). v = 0)
           (dict_get (marchandises (DATA (snd (clean_marchandise_all i w)))) []) \<and>
         marchandises (DATA (snd (clean_marchandise_all i
             (w\<lparr>DATA := (DATA w)\<lparr>marchandises := Some [(''crates'', 10), (''boxes'', 3)]\<rparr>\<rparr>)))) =
           Some [(''crates'', 0), (''boxes'', 0)]"
  using assms
  by (simp add: accepted_clean_propre accepted_clean_sale quantity_clean_marchandise
      accepted_clean_marchandise_all map_fst_zeroed list_all_zeroed dict_get_Some
      del: map_map)

theorem reset_gives_zero_witness:
  "check_allowed_and_channel cmd_call = Inr None \<and>
   propre (DATA (snd (clean_propre cmd_call initial_world))) = Some 0 \<and>
   sale (DATA (snd (clean_sale cmd_call initial_world))) = Some 0 \<and>
   propre (DATA (snd (clean_propre cmd_call stocked_world))) = Some 0 \<and>
   sale (DATA (snd (clean_sale cmd_call stocked_world))) = Some 0 \<and>
   quantity (DATA stocked_world) ''boxes'' = Some 3 \<and>
   quantity (DATA (snd (clean_marchandise cmd_call ''boxes'' stocked_world))) ''boxes'' = Some 0 \<and>
   marchandises (DATA (snd (clean_marchandise_all cmd_call stocked_world))) =
     Some [(''crates'', 0), (''boxes'', 0)]"
proof -
  have acc: "check_allowed_and_channel cmd_call = Inr None"
    by (rule cmd_call_accepted)
  have q: "quantity (DATA stocked_world) ''boxes'' = Some 3"
    by (simp add: stocked_world_def stocked_ledger_def dict_get_def quantity_def)
  have w: "stocked_world\<lparr>DATA := (DATA stocked_world)
             \<lparr>marchandises := Some [(''crates'', 10), (''boxes'', 3)]\<rparr>\<rparr> = stocked_world"
    by (simp add: stocked_world_def stocked_ledger_def)
  from reset_gives_zero [OF acc, where w = initial_world]
    reset_gives_zero [OF acc, where w = stocked_world and nom = "''boxes''" and q = 3]
    acc q w
  show ?thesis by simp
qed

section \<open>What a call leaves unchanged\<close>

lemma frame_propre:
  "keeps_all_but_propre (DATA w) (DATA (snd (propre_in i a w))) \<and>
   keeps_all_but_propre (DATA w) (DATA (snd (propre_out i a w))) \<and>
   keeps_all_but_propre (DATA w) (DATA (snd (clean_propre i w)))"
  by (cases "check_allowed_and_channel i")
     (simp_all add: keeps_all_but_propre_def propre_in_def propre_out_def clean_propre_def
        Let_def split: option.splits)

lemma frame_sale:
  "keeps_all_but_sale (DATA w) (DATA (snd (sale_in i a w))) \<and>
   keeps_all_but_sale (DATA w) (DATA (snd (sale_out i a w))) \<and>
   keeps_all_but_sale (DATA w) (DATA (snd (clean_sale i w)))"
  by (cases "check_allowed_and_channel i")
     (simp_all add: keeps_all_but_sale_def sale_in_def sale_out_def clean_sale_def Let_def
        split: option.splits)

lemma frame_marchandises:
  "keeps_all_but_marchandises (DATA w) (DATA (snd (new_marchandise i nom w))) \<and>
   keeps_all_but_marchandises (DATA w) (DATA (snd (delete_marchandise i nom w))) \<and>
   keeps_all_but_marchandises (DATA w) (DATA (snd (marchandise_in i nom a w))) \<and>
   keeps_all_but_marchandises (DATA w) (DATA (snd (marchandise_out i nom a w))) \<and>
   keeps_all_but_marchandises (DATA w) (DATA (snd (clean_marchandise i nom w))) \<and>
   keeps_all_but_marchandises (DATA w) (DATA (snd (clean_marchandise_all i w)))"
  by (cases "check_allowed_and_channel i"; cases "marchandises (DATA w)")
     (simp_all add: keeps_all_but_marchandises_def new_marchandise_def delete_marchandise_def
        marchandise_in_def marchandise_out_def clean_marchandise_def clean_marchandise_all_def
        setdefault_marchandises_def Let_def split: option.splits)

text \<open>
  Claim C10. A clean-money call (in, out, reset) leaves the dirty balance, the
  merchandise dictionary and the status-message identifiers as they were; a dirty-money
  call leaves the clean balance, the dictionary and the identifiers; a merchandise call
  (create, delete, in, out, reset of one item, reset of all) leaves both balances and the
  identifiers. This holds for every call, accepted or rejected.
\<close>

theorem only_target_field_changes:
  "keeps_all_but_propre (DATA w) (DATA (snd (propre_in i a w))) \<and>
   keeps_all_but_propre (DATA w) (DATA (snd (propre_out i a w))) \<and>
   keeps_all_but_propre (DATA w) (DATA (snd (clean_propre i w))) \<and>
   keeps_all_but_sale (DATA w) (DATA (snd (sale_in i a w))) \<and>
   keeps_all_but_sale (DATA w) (DATA (snd (sale_out i a w))) \<and>
   keeps_all_but_sale (DATA w) (DATA (snd (clean_sale i w))) \<and>
   keeps_all_but_marchandises (DATA w) (DATA (snd (new_marchandise i nom w))) \<and>
   keeps_all_but_marchandises (DATA w) (DATA (snd (delete_marchandise i nom w))) \<and>
   keeps_all_but_marchandises (DATA w) (DATA (snd (marchandise_in i nom a w))) \<and>
   keeps_all_but_marchandises (DATA w) (DATA (snd (marchandise_out i nom a w))) \<and>
   keeps_all_but_marchandises (DATA w) (DATA (snd (clean_marchandise i nom w))) \<and>
   keeps_all_but_marchandises (DATA w) (DATA (snd (clean_marchandise_all i w)))"
  using frame_propre [of w i a] frame_sale [of w i a] frame_marchandises [of w i nom a]
  by simp

section \<open>Reachable worlds\<close>

lemma well_formed_initial: "well_formed initial_world"
  by (simp add: well_formed_def initial_world_eq DEFAULT_DATA_def dict_get_def)

lemma well_formed_dispatch: "well_formed w \<Longrightarrow> well_formed (snd (dispatch i c w))"
  by (cases c; cases "check_allowed_and_channel i"; cases "marchandises (DATA w)")
     (auto simp: well_formed_def handler_defs setdefault_marchandises_def Let_def dict_get_def
        save_data_def post_history_def distinct_update distinct_delete comp_def
        split: option.splits)

lemma well_formed_run: "well_formed w \<Longrightarrow> well_formed (run ics w)"
  by (induction ics arbitrary: w) (auto simp: well_formed_dispatch)

lemma reachable_well_formed: "well_formed (run ics initial_world)"
  by (simp add: well_formed_run well_formed_initial)

end
